theory Spec2Isabelle
  imports Main "HOL-Library.Multiset" "HOL-Library.Char_ord" "HOL-Library.List_Lexorder"
begin

section \<open>Stacking of raster data: the notebook \<open>14-combine-data\<close>\<close>

text \<open>
  The notebook is a straight line of calls: list the \<open>*.tiff\<close> entries below a directory
  (\<open>sorted(Path(...).rglob("*.tiff"))\<close>), take the date out of every file name
  (\<open>pd.to_datetime(file_name.stem.split(",")[0])\<close>), stack the opened rasters along a new
  \<open>date\<close> axis (\<open>xr.concat\<close>, or \<open>xr.open_mfdataset\<close> with the hook \<open>add_date_dimension\<close>) and
  write the result.

  The Python built-ins and \<open>pathlib\<close> operations the cells use are written out as functions.
  The calls into pandas and xarray whose algorithm is not part of the notebook
  (\<open>pd.to_datetime\<close>, \<open>xr.open_dataarray\<close>, \<open>xr.concat\<close>, \<open>xr.open_dataset\<close>, the combine step
  of \<open>xr.open_mfdataset\<close>, \<open>to_netcdf\<close>, \<open>to_zarr\<close>) are parameters of the cells that call them.
\<close>

subsection \<open>Errors\<close>

text \<open>Every exception a cell can end with is a value; \<open>Inl\<close> carries it.\<close>

datatype error =
    IndexError
  | KeyError string
  | DateParseError string
  | ValueError string
  | OSError string

subsection \<open>Python built-ins\<close>

text \<open>
  \<open>s.split(sep)\<close> with a one-character separator: the segments between the separators,
  always at least one (\<open>"".split(",") == [""]\<close>).
\<close>

fun split :: "string \<Rightarrow> char \<Rightarrow> string list" where
  "split [] sep = [[]]"
| "split (c # cs) sep =
     (if c = sep then [] # split cs sep
      else (case split cs sep of [] \<Rightarrow> [[c]] | w # ws \<Rightarrow> (c # w) # ws))"

text \<open>\<open>xs[0]\<close>: raises IndexError on an empty list.\<close>

definition item0 :: "'a list \<Rightarrow> error + 'a" where
  "item0 xs = (case xs of [] \<Rightarrow> Inl IndexError | x # _ \<Rightarrow> Inr x)"

text \<open>
  \<open>s.rfind(c)\<close>: the index of the last occurrence of \<open>c\<close>, or \<open>-1\<close>.
\<close>

definition rfind :: "string \<Rightarrow> char \<Rightarrow> int" where
  "rfind s c =
     (if c \<in> set s
      then int (length s) - 1 - int (length (takeWhile (\<lambda>x. x \<noteq> c) (rev s)))
      else - 1)"

text \<open>
  A list comprehension \<open>[f(x) for x in xs]\<close> whose body may raise: the first exception,
  from left to right, ends it.
\<close>

fun comprehension :: "('a \<Rightarrow> error + 'b) \<Rightarrow> 'a list \<Rightarrow> error + 'b list" where
  "comprehension f [] = Inr []"
| "comprehension f (x # xs) =
     (case f x of
        Inl e \<Rightarrow> Inl e
      | Inr y \<Rightarrow> (case comprehension f xs of Inl e \<Rightarrow> Inl e | Inr ys \<Rightarrow> Inr (y # ys)))"

subsection \<open>pathlib\<close>

text \<open>
  A path is the list of its components (\<open>PurePath.parts\<close> without the anchor: every path of
  the notebook lies below one directory, and \<open>name\<close> and \<open>stem\<close> read the last component only).
  Paths compare as \<open>pathlib\<close> compares them on POSIX, component list against component
  list, each component by code point: the lexicographic order on \<open>string list\<close>.
\<close>

type_synonym path = "string list"

text \<open>\<open>Path(s)\<close>: split at \<open>/\<close>, drop empty components and \<open>.\<close>.\<close>

definition Path :: "string \<Rightarrow> path" where
  "Path s = filter (\<lambda>x. x \<noteq> [] \<and> x \<noteq> ''.'') (split s CHR ''/'')"

text \<open>\<open>PurePath.name\<close>: the last component, the empty string when there is none.\<close>

definition name :: "path \<Rightarrow> string" where
  "name p = (if p = [] then [] else last p)"

text \<open>
  \<open>PurePath.stem\<close>: the name without its last suffix;
  \<open>i = name.rfind('.')\<close>, and \<open>name[:i]\<close> if \<open>0 < i < len(name) - 1\<close>, else the name.
\<close>

definition stem :: "path \<Rightarrow> string" where
  "stem p =
     (let nm = name p; i = rfind nm CHR ''.''
      in if 0 < i \<and> i < int (length nm) - 1 then take (nat i) nm else nm)"

text \<open>
  \<open>fnmatch\<close> on one path component, case-sensitive as on POSIX, for patterns built from
  literal characters, \<open>*\<close> and \<open>?\<close> (the notebook's pattern is \<open>*.tiff\<close>). A leading dot is
  not special in \<open>pathlib\<close>.
\<close>

fun fnmatch :: "string \<Rightarrow> string \<Rightarrow> bool" where
  "fnmatch [] [] = True"
| "fnmatch (c # cs) [] = False"
| "fnmatch [] (p # ps) = (p = CHR ''*'' \<and> fnmatch [] ps)"
| "fnmatch (c # cs) (p # ps) =
     (if p = CHR ''*'' then fnmatch (c # cs) ps \<or> fnmatch cs (p # ps)
      else (p = CHR ''?'' \<or> p = c) \<and> fnmatch cs ps)"

text \<open>
  The directory tree below the start directory. A directory holds its entries in the order
  \<open>os.scandir\<close> happens to list them, which is arbitrary.
\<close>

datatype entry = File | Dir "(string \<times> entry) list"

text \<open>
  \<open>Path.rglob(pattern)\<close> for a one-component pattern: every directory from the start
  directory downwards is listed, and each entry of it whose name matches is yielded, be
  it a regular file or a directory. The start directory itself is not yielded; a start
  path that is not a directory yields nothing.
\<close>

fun rglob :: "path \<Rightarrow> entry \<Rightarrow> string \<Rightarrow> path list" where
  "rglob p File pat = []"
| "rglob p (Dir es) pat =
     map (\<lambda>e. p @ [fst e]) (filter (\<lambda>e. fnmatch (fst e) pat) es)
     @ concat (map (\<lambda>e. rglob (p @ [fst e]) (snd e) pat) es)"

text \<open>\<open>sorted(paths)\<close>.\<close>

definition sorted_paths :: "path list \<Rightarrow> path list" where
  "sorted_paths ps = sort ps"

text \<open>
  What a relative path leads to in the tree: \<open>exists\<close> holds when it leads to an entry of
  any kind, \<open>is_file\<close> when it leads to a regular file (\<open>Path.exists\<close>, \<open>Path.is_file\<close>).
\<close>

fun exists :: "entry \<Rightarrow> path \<Rightarrow> bool" where
  "exists t [] = True"
| "exists File (n # ns) = False"
| "exists (Dir es) (n # ns) = list_ex (\<lambda>e. fst e = n \<and> exists (snd e) ns) es"

fun is_file :: "entry \<Rightarrow> path \<Rightarrow> bool" where
  "is_file File [] = True"
| "is_file (Dir es) [] = False"
| "is_file File (n # ns) = False"
| "is_file (Dir es) (n # ns) = list_ex (\<lambda>e. fst e = n \<and> is_file (snd e) ns) es"

subsection \<open>pandas and xarray\<close>

text \<open>
  \<open>pd.to_datetime\<close> is a parameter \<open>to_datetime :: string \<Rightarrow> 'd option\<close> of the cells that call
  it: \<open>None\<close> where pandas raises on the string, the timestamp it returns otherwise. The
  notebook checks nothing else about a name: a string counts as a date when \<open>to_datetime\<close>
  does not raise on it.

  \<open>xr.Variable(dims, data)\<close> with one dimension: its name and its values.
\<close>

record 'd variable =
  var_dim :: string
  var_values :: "'d list"

text \<open>
  A \<open>DataArray\<close>: the names of its dimensions, its coordinates by name and its values
  (left abstract). The axis of a dimension is its coordinate: name and labels.
\<close>

record ('d, 'v) data_array =
  da_dims :: "string list"
  da_coords :: "string \<rightharpoonup> 'd variable"
  da_values :: 'v

text \<open>
  A \<open>Dataset\<close>: data variables and coordinates by name, and the \<open>encoding\<close> dictionary.
\<close>

record ('d, 'v) dataset =
  data_vars :: "string \<rightharpoonup> 'v"
  coords :: "string \<rightharpoonup> 'd variable"
  encoding :: "string \<rightharpoonup> string"

text \<open>\<open>d[key]\<close> on a dictionary of strings: KeyError when the key is missing.\<close>

definition getitem :: "(string \<rightharpoonup> 'a) \<Rightarrow> string \<Rightarrow> error + 'a" where
  "getitem d k = (case d k of None \<Rightarrow> Inl (KeyError k) | Some v \<Rightarrow> Inr v)"

text \<open>
  \<open>ds.assign_coords(k=(dim, values))\<close>: the dataset with the coordinate \<open>k\<close> added or
  replaced, everything else as it was.
\<close>

definition assign_coords ::
  "('d, 'v) dataset \<Rightarrow> string \<Rightarrow> 'd variable \<Rightarrow> ('d, 'v) dataset" where
  "assign_coords ds k v = ds\<lparr>coords := (coords ds)(k \<mapsto> v)\<rparr>"

text \<open>
  \<open>ds.rename({old: new})\<close>: ValueError when \<open>old\<close> names nothing in the dataset or \<open>new\<close> is
  taken; otherwise the variable, coordinate and dimension called \<open>old\<close> are called \<open>new\<close>.
  The names of a dataset are those of its data variables and coordinates.
\<close>

definition rename_key :: "string \<Rightarrow> string \<Rightarrow> (string \<rightharpoonup> 'a) \<Rightarrow> (string \<rightharpoonup> 'a)" where
  "rename_key old new m = (\<lambda>k. if k = new then m old else if k = old then None else m k)"

definition rename_dim :: "string \<Rightarrow> string \<Rightarrow> 'd variable \<Rightarrow> 'd variable" where
  "rename_dim old new v = (if var_dim v = old then v\<lparr>var_dim := new\<rparr> else v)"

definition rename ::
  "('d, 'v) dataset \<Rightarrow> string \<Rightarrow> string \<Rightarrow> error + ('d, 'v) dataset" where
  "rename ds old new =
     (if data_vars ds old = None \<and> coords ds old = None
      then Inl (ValueError ''cannot rename: not a variable or dimension in this dataset'')
      else if data_vars ds new \<noteq> None \<or> coords ds new \<noteq> None
      then Inl (ValueError ''the new name conflicts'')
      else Inr (ds\<lparr>data_vars := rename_key old new (data_vars ds),
                   coords := map_option (rename_dim old new) \<circ> rename_key old new (coords ds)\<rparr>))"

text \<open>
  \<open>xr.open_mfdataset(paths, preprocess=hook, ...)\<close>, as the notebook quotes its
  documentation: "If provided, call this function on each dataset prior to concatenation."
  Every path is opened, the hook is called on each opened dataset, and the datasets the
  hook returned are combined. Opening (\<open>open_dataset\<close>) and combining (\<open>combine\<close>) are
  parameters; an exception from either, or from the hook, ends the call.
\<close>

definition open_mfdataset ::
  "(path \<Rightarrow> error + ('d, 'v) dataset) \<Rightarrow> (('d, 'v) dataset list \<Rightarrow> error + 'r) \<Rightarrow>
   path list \<Rightarrow> (('d, 'v) dataset \<Rightarrow> error + ('d, 'v) dataset) \<Rightarrow> error + 'r" where
  "open_mfdataset open_dataset combine paths preprocess =
     (case comprehension open_dataset paths of
        Inl e \<Rightarrow> Inl e
      | Inr datasets \<Rightarrow>
          (case comprehension preprocess datasets of
             Inl e \<Rightarrow> Inl e
           | Inr datasets' \<Rightarrow> combine datasets'))"

subsection \<open>The cells of the notebook\<close>

text \<open>
  \<open>moisture_index_files = list(sorted(Path(root).rglob("*.tiff")))\<close>, for the start
  directory \<open>root\<close> holding the tree \<open>t\<close>.
\<close>

definition moisture_index_files :: "path \<Rightarrow> entry \<Rightarrow> path list" where
  "moisture_index_files root t = sorted_paths (rglob root t ''*.tiff'')"

text \<open>\<open>pd.to_datetime(file_name.stem.split(",")[0])\<close>.\<close>

definition file_date :: "(string \<Rightarrow> 'd option) \<Rightarrow> path \<Rightarrow> error + 'd" where
  "file_date to_datetime file_name =
     (case item0 (split (stem file_name) CHR '','') of
        Inl e \<Rightarrow> Inl e
      | Inr segment \<Rightarrow>
          (case to_datetime segment of
             None \<Rightarrow> Inl (DateParseError segment)
           | Some d \<Rightarrow> Inr d))"

text \<open>\<open>moisture_index_dates = [pd.to_datetime(...) for file_name in moisture_index_files]\<close>.\<close>

definition moisture_index_dates ::
  "(string \<Rightarrow> 'd option) \<Rightarrow> path list \<Rightarrow> error + 'd list" where
  "moisture_index_dates to_datetime files = comprehension (file_date to_datetime) files"

text \<open>\<open>date_var = xr.Variable('date', moisture_index_dates)\<close>.\<close>

definition date_var :: "'d list \<Rightarrow> 'd variable" where
  "date_var dates = \<lparr>var_dim = ''date'', var_values = dates\<rparr>"

text \<open>
  \<open>moisture_index = xr.concat([xr.open_dataarray(file_name, ...) for file_name in
  moisture_index_files], dim=date_var)\<close>, with the cells before it: the dates are taken
  from the names first, then the files are opened, then the arrays are concatenated.
\<close>

definition moisture_index ::
  "(string \<Rightarrow> 'd option) \<Rightarrow> (path \<Rightarrow> error + ('d, 'v) data_array) \<Rightarrow>
   (('d, 'v) data_array list \<Rightarrow> 'd variable \<Rightarrow> error + ('d, 'v) data_array) \<Rightarrow>
   path list \<Rightarrow> error + ('d, 'v) data_array" where
  "moisture_index to_datetime open_dataarray concat_arrays files =
     (case moisture_index_dates to_datetime files of
        Inl e \<Rightarrow> Inl e
      | Inr dates \<Rightarrow>
          (case comprehension open_dataarray files of
             Inl e \<Rightarrow> Inl e
           | Inr arrays \<Rightarrow> concat_arrays arrays (date_var dates)))"

text \<open>
  The hook of the lazy path:
  \<^verbatim>\<open>
  def add_date_dimension(ds):
      ds_date = pd.to_datetime(Path(ds.encoding["source"]).stem.split(",")[0])
      ds = ds.assign_coords(date=("date", [ds_date])).rename({"band_data": "moisture_index"})
      return ds
  \<close>
\<close>

definition add_date_dimension ::
  "(string \<Rightarrow> 'd option) \<Rightarrow> ('d, 'v) dataset \<Rightarrow> error + ('d, 'v) dataset" where
  "add_date_dimension to_datetime ds =
     (case getitem (encoding ds) ''source'' of
        Inl e \<Rightarrow> Inl e
      | Inr source \<Rightarrow>
          (case file_date to_datetime (Path source) of
             Inl e \<Rightarrow> Inl e
           | Inr ds_date \<Rightarrow>
               rename (assign_coords ds ''date'' \<lparr>var_dim = ''date'', var_values = [ds_date]\<rparr>)
                 ''band_data'' ''moisture_index''))"

text \<open>
  \<open>moisture_index_lazy = xr.open_mfdataset(sorted(Path(root).rglob("*.tiff")),
  preprocess=add_date_dimension, ...)\<close>.
\<close>

definition moisture_index_lazy ::
  "(string \<Rightarrow> 'd option) \<Rightarrow> (path \<Rightarrow> error + ('d, 'v) dataset) \<Rightarrow>
   (('d, 'v) dataset list \<Rightarrow> error + 'r) \<Rightarrow> path \<Rightarrow> entry \<Rightarrow> error + 'r" where
  "moisture_index_lazy to_datetime open_dataset combine root t =
     open_mfdataset open_dataset combine (sorted_paths (rglob root t ''*.tiff''))
       (add_date_dimension to_datetime)"

text \<open>
  One run of the eager pipeline: enumerate, stack, then
  \<open>moisture_index.to_netcdf("moisture_index_stacked.nc")\<close>. The store the output is written
  to is a state \<open>disk\<close>; \<open>to_netcdf\<close> is a parameter that returns the store after the write
  and the exception it raised, if any. An exception before the write leaves the store as
  it was.
\<close>

definition eager_run ::
  "(string \<Rightarrow> 'd option) \<Rightarrow> (path \<Rightarrow> error + ('d, 'v) data_array) \<Rightarrow>
   (('d, 'v) data_array list \<Rightarrow> 'd variable \<Rightarrow> error + ('d, 'v) data_array) \<Rightarrow>
   (('d, 'v) data_array \<Rightarrow> string \<Rightarrow> 's \<Rightarrow> 's \<times> error option) \<Rightarrow>
   path \<Rightarrow> entry \<Rightarrow> 's \<Rightarrow> (error + ('d, 'v) data_array) \<times> 's" where
  "eager_run to_datetime open_dataarray concat_arrays to_netcdf root t disk =
     (case moisture_index to_datetime open_dataarray concat_arrays (moisture_index_files root t) of
        Inl e \<Rightarrow> (Inl e, disk)
      | Inr arr \<Rightarrow>
          (case to_netcdf arr ''moisture_index_stacked.nc'' disk of
             (disk', Some e) \<Rightarrow> (Inl e, disk')
           | (disk', None) \<Rightarrow> (Inr arr, disk')))"

text \<open>
  One run of the lazy pipeline: \<open>open_mfdataset\<close>, then
  \<open>moisture_index_lazy.to_zarr("moisture_index_stacked.zarr")\<close>.
\<close>

definition lazy_run ::
  "(string \<Rightarrow> 'd option) \<Rightarrow> (path \<Rightarrow> error + ('d, 'v) dataset) \<Rightarrow>
   (('d, 'v) dataset list \<Rightarrow> error + 'r) \<Rightarrow> ('r \<Rightarrow> string \<Rightarrow> 's \<Rightarrow> 's \<times> error option) \<Rightarrow>
   path \<Rightarrow> entry \<Rightarrow> 's \<Rightarrow> (error + 'r) \<times> 's" where
  "lazy_run to_datetime open_dataset combine to_zarr root t disk =
     (case moisture_index_lazy to_datetime open_dataset combine root t of
        Inl e \<Rightarrow> (Inl e, disk)
      | Inr ds \<Rightarrow>
          (case to_zarr ds ''moisture_index_stacked.zarr'' disk of
             (disk', Some e) \<Rightarrow> (Inl e, disk')
           | (disk', None) \<Rightarrow> (Inr ds, disk')))"

text \<open>
  Two listings of one directory tree: the same entries under the same names, each
  directory listed in any order.
\<close>

inductive same_tree :: "entry \<Rightarrow> entry \<Rightarrow> bool" where
  same_file: "same_tree File File"
| same_dir: "list_all2 (\<lambda>a b. fst a = fst b \<and> same_tree (snd a) (snd b)) es ds \<Longrightarrow>
        mset ds = mset es' \<Longrightarrow> same_tree (Dir es) (Dir es')"

text \<open>
  The contract of \<open>xr.concat\<close> for a \<open>dim\<close> given as a Variable (xarray's documentation:
  "its name is used as the dimension to concatenate along and the values are added as a
  coordinate"): whenever the call returns, the result has that dimension and that
  coordinate.
\<close>

definition concat_adds_coordinate ::
  "(('d, 'v) data_array list \<Rightarrow> 'd variable \<Rightarrow> error + ('d, 'v) data_array) \<Rightarrow> bool" where
  "concat_adds_coordinate concat_arrays \<longleftrightarrow>
     (\<forall>objs dim r. concat_arrays objs dim = Inr r \<longrightarrow>
        var_dim dim \<in> set (da_dims r) \<and> da_coords r (var_dim dim) = Some dim)"

text \<open>
  The contract of opening a dataset, as the notebook quotes it: "You can find the
  file-name from which each dataset was loaded in ds.encoding["source"]". The recorded
  string may spell the path differently (xarray records an absolute path); it names the
  same file. The contract is asked of the paths a call opens, where opening succeeds.
\<close>

definition source_recorded :: "(path \<Rightarrow> error + ('d, 'v) dataset) \<Rightarrow> path list \<Rightarrow> bool" where
  "source_recorded open_dataset paths =
     list_all
       (\<lambda>p. case open_dataset p of
               Inl e \<Rightarrow> True
             | Inr ds \<Rightarrow>
                 (case encoding ds ''source'' of
                    None \<Rightarrow> False
                  | Some s \<Rightarrow> name (Path s) = name p))
       paths"

text \<open>
  The first segment of a stem, said without the split: the characters before the first
  comma, all of them when there is none.
\<close>

definition first_segment :: "string \<Rightarrow> string" where
  "first_segment s = takeWhile (\<lambda>c. c \<noteq> CHR '','') s"

text \<open>
  What one entry of a directory listing contributes to \<open>rglob\<close>: its own path when its
  name matches, and what is found below it.
\<close>

definition yield :: "path \<Rightarrow> string \<Rightarrow> string \<times> entry \<Rightarrow> path multiset" where
  "yield p pat e =
     (if fnmatch (fst e) pat then {#p @ [fst e]#} else {#})
     + mset (rglob (p @ [fst e]) (snd e) pat)"

subsection \<open>The example folder of the notebook\<close>

text \<open>
  The notebook runs on the folder
  \<^verbatim>\<open>
  ./data/herstappe/raster/sentinel_moisture/
    2016-05-01, Sentinel-2A L1C, Moisture index.tiff
    2019-02-15, Sentinel-2A L1C, Moisture index.tiff
    2020-02-07, Sentinel-2A L1C, Moisture index.tiff
  \<close>
  The definitions of this subsection are that folder and one instance of each library
  parameter, for running the cells on concrete inputs. They stand for nothing else:
  every theorem below is about arbitrary parameters.
\<close>

definition example_root :: path where
  "example_root = [''data'', ''herstappe'', ''raster'', ''sentinel_moisture'']"

definition example_folder :: entry where
  "example_folder = Dir
     [(''2019-02-15, Sentinel-2A L1C, Moisture index.tiff'', File),
      (''2020-02-07, Sentinel-2A L1C, Moisture index.tiff'', File),
      (''2016-05-01, Sentinel-2A L1C, Moisture index.tiff'', File)]"

text \<open>The same folder, listed in another order.\<close>

definition example_folder_relisted :: entry where
  "example_folder_relisted = Dir
     [(''2016-05-01, Sentinel-2A L1C, Moisture index.tiff'', File),
      (''2020-02-07, Sentinel-2A L1C, Moisture index.tiff'', File),
      (''2019-02-15, Sentinel-2A L1C, Moisture index.tiff'', File)]"


text \<open>
  A date parser for the ISO form \<open>YYYY-MM-DD\<close> and nothing else: year, month and day as
  numbers, \<open>None\<close> on any other string.
\<close>

definition digit :: "char \<Rightarrow> nat option" where
  "digit c = (if CHR ''0'' \<le> c \<and> c \<le> CHR ''9'' then Some (of_char c - 48) else None)"

fun number :: "string \<Rightarrow> nat option" where
  "number [] = None"
| "number cs =
     fold (\<lambda>c acc. case (acc, digit c) of (Some n, Some k) \<Rightarrow> Some (10 * n + k) | _ \<Rightarrow> None)
       cs (Some 0)"

definition iso_date :: "string \<Rightarrow> (nat \<times> nat \<times> nat) option" where
  "iso_date s =
     (case split s CHR ''-'' of
        [y, m, d] \<Rightarrow>
          (if length y = 4 \<and> length m = 2 \<and> length d = 2
           then (case (number y, number m, number d) of
                   (Some yy, Some mm, Some dd) \<Rightarrow>
                     if 1 \<le> mm \<and> mm \<le> 12 \<and> 1 \<le> dd \<and> dd \<le> 31 then Some (yy, mm, dd) else None
                 | _ \<Rightarrow> None)
           else None)
      | _ \<Rightarrow> None)"




text \<open>
  An opener that returns, for every path, a one-band array whose values are the file's
  name, and a concatenation that meets the contract \<open>concat_adds_coordinate\<close>.
\<close>

definition example_open_dataarray :: "path \<Rightarrow> error + ('d, string list) data_array" where
  "example_open_dataarray p =
     Inr \<lparr>da_dims = [''band'', ''y'', ''x''], da_coords = Map.empty, da_values = [name p]\<rparr>"

definition example_concat ::
  "('d, string list) data_array list \<Rightarrow> 'd variable \<Rightarrow> error + ('d, string list) data_array" where
  "example_concat objs dim =
     (case objs of
        [] \<Rightarrow> Inl (ValueError ''nothing to concatenate'')
      | a # _ \<Rightarrow>
          Inr \<lparr>da_dims = var_dim dim # da_dims a,
               da_coords = (da_coords a)(var_dim dim \<mapsto> dim),
               da_values = concat (map da_values objs)\<rparr>)"

text \<open>
  An opener for the lazy path that records the absolute path of the file as the source,
  and a combine step that keeps the date labels of the datasets it is given, in order.
\<close>

definition example_open_dataset :: "path \<Rightarrow> error + ('d, string) dataset" where
  "example_open_dataset p =
     Inr \<lparr>data_vars = [''band_data'' \<mapsto> name p],
          coords = Map.empty,
          encoding = [''source'' \<mapsto> ''/home/user/'' @ concat (map (\<lambda>c. c @ ''/'') (butlast p)) @ name p]\<rparr>"

definition example_combine :: "('d, string) dataset list \<Rightarrow> error + 'd list" where
  "example_combine dss =
     Inr (concat (map (\<lambda>ds. case coords ds ''date'' of None \<Rightarrow> [] | Some v \<Rightarrow> var_values v) dss))"

text \<open>A write that stores the name of the destination.\<close>

definition example_write :: "'a \<Rightarrow> string \<Rightarrow> string list \<Rightarrow> string list \<times> error option" where
  "example_write x dest disk = (dest # disk, None)"

section \<open>Auxiliary facts\<close>

subsection \<open>Facts about the built-ins\<close>

lemma split_first: "\<exists>rest. split s c = takeWhile (\<lambda>x. x \<noteq> c) s # rest"
  by (induction s) (auto split: list.splits)

lemma split_no_sep: "c \<notin> set s \<Longrightarrow> split s c = [s]"
  by (induction s) (auto split: list.splits)

lemma item0_split: "item0 (split s CHR '','') = Inr (first_segment s)"
  using split_first[of s "CHR '',''"] by (auto simp: item0_def first_segment_def)

lemma first_segment_no_comma: "CHR '','' \<notin> set s \<Longrightarrow> first_segment s = s"
  by (auto simp: first_segment_def)

lemma file_date_eq:
  "file_date td p =
     (case td (first_segment (stem p)) of
        None \<Rightarrow> Inl (DateParseError (first_segment (stem p)))
      | Some d \<Rightarrow> Inr d)"
  by (simp add: file_date_def item0_split)


lemma file_date_Inr: "file_date td p = Inr d \<longleftrightarrow> td (first_segment (stem p)) = Some d"
  by (auto simp: file_date_eq split: option.splits)

lemma set_stem: "set (stem p) \<subseteq> set (name p)"
  by (auto simp: stem_def Let_def dest: in_set_takeD)

lemma stem_cong_name: "name p = name q \<Longrightarrow> stem p = stem q"
  by (simp add: stem_def)

lemma comprehension_Inr: "comprehension f xs = Inr ys \<longleftrightarrow> map f xs = map Inr ys"
proof (induction xs arbitrary: ys)
  case Nil
  then show ?case by auto
next
  case (Cons x xs)
  show ?case
  proof (cases "f x")
    case (Inl e)
    then show ?thesis by (cases ys) auto
  next
    case (Inr y)
    show ?thesis
    proof (cases "comprehension f xs")
      case (Inl e)
      with Cons.IH have "\<And>zs. map f xs \<noteq> map Inr zs" by auto
      with Inl Inr show ?thesis by (cases ys) auto
    next
      case r: (Inr zs)
      with Cons.IH[of zs] have "map f xs = map Inr zs" by simp
      with r Inr show ?thesis by (cases ys) (auto simp: inj_map_eq_map)
    qed
  qed
qed



lemma fnmatch_literal:
  "CHR ''*'' \<notin> set ps \<Longrightarrow> CHR ''?'' \<notin> set ps \<Longrightarrow> fnmatch s ps \<longleftrightarrow> s = ps"
  by (induction s ps rule: fnmatch.induct) auto

lemma fnmatch_star_literal:
  "CHR ''*'' \<notin> set ps \<Longrightarrow> CHR ''?'' \<notin> set ps \<Longrightarrow>
   fnmatch s (CHR ''*'' # ps) \<longleftrightarrow> (\<exists>x. s = x @ ps)"
proof (induction s)
  case Nil
  then show ?case by (cases ps) (auto simp: fnmatch_literal)
next
  case (Cons c cs)
  then show ?case by (auto simp: fnmatch_literal Cons_eq_append_conv)
qed

lemma fnmatch_tiff: "fnmatch n ''*.tiff'' \<longleftrightarrow> (\<exists>x. n = x @ ''.tiff'')"
  using fnmatch_star_literal[of "''.tiff''" n] by simp

subsection \<open>Facts about the enumeration\<close>

lemma mset_rglob_Dir: "mset (rglob p (Dir es) pat) = (\<Sum>e\<in>#mset es. yield p pat e)"
  by (induction es) (auto simp: yield_def)

lemma sum_mset_list_all2:
  "list_all2 (\<lambda>a b. f a = g b) xs ys \<Longrightarrow> (\<Sum>x\<in>#mset xs. f x) = (\<Sum>y\<in>#mset ys. g y)"
  by (induction xs ys rule: list_all2_induct) auto

lemma same_tree_mset_rglob:
  "same_tree t t' \<Longrightarrow> mset (rglob p t pat) = mset (rglob p t' pat)"
proof (induction arbitrary: p rule: same_tree.induct)
  case same_file
  show ?case by simp
next
  case (same_dir es ds es')
  have "list_all2 (\<lambda>a b. yield p pat a = yield p pat b) es ds"
    using same_dir.IH by (rule list_all2_mono) (auto simp: yield_def)
  then have "(\<Sum>e\<in>#mset es. yield p pat e) = (\<Sum>e\<in>#mset ds. yield p pat e)"
    by (rule sum_mset_list_all2)
  with same_dir.hyps show ?case unfolding mset_rglob_Dir by simp
qed

lemma same_tree_files:
  assumes "same_tree t t'"
  shows "sorted_paths (rglob root t pat) = sorted_paths (rglob root t' pat)"
proof -
  have "mset (sort (rglob root t' pat)) = mset (rglob root t pat)"
    using same_tree_mset_rglob[OF assms, of root pat] by simp
  then have "sort (rglob root t pat) = sort (rglob root t' pat)"
    by (rule properties_for_sort) simp
  then show ?thesis by (simp add: sorted_paths_def)
qed

lemma set_rglob:
  "set (rglob p t pat) = {p @ rel | rel. rel \<noteq> [] \<and> exists t rel \<and> fnmatch (last rel) pat}"
proof (induction p t pat rule: rglob.induct)
  case (1 p pat)
  have "\<not> exists File rel" if "rel \<noteq> []" for rel using that by (cases rel) auto
  then show ?case by auto
next
  case (2 p es pat)
  show ?case
  proof (intro set_eqI iffI)
    fix q assume "q \<in> set (rglob p (Dir es) pat)"
    then consider e where "e \<in> set es" "fnmatch (fst e) pat" "q = p @ [fst e]"
      | e where "e \<in> set es" "q \<in> set (rglob (p @ [fst e]) (snd e) pat)"
      by auto
    then show "q \<in> {p @ rel | rel. rel \<noteq> [] \<and> exists (Dir es) rel \<and> fnmatch (last rel) pat}"
    proof cases
      case 1
      then have "exists (Dir es) [fst e]" by (auto simp: list_ex_iff)
      with 1 show ?thesis by (intro CollectI exI[of _ "[fst e]"]) simp
    next
      case 2
      with "2.IH"[of e] obtain rel where rel: "q = (p @ [fst e]) @ rel" "rel \<noteq> []"
        "exists (snd e) rel" "fnmatch (last rel) pat" by auto
      with 2 have "exists (Dir es) (fst e # rel)" by (auto simp: list_ex_iff)
      with rel show ?thesis by (intro CollectI exI[of _ "fst e # rel"]) simp
    qed
  next
    fix q assume "q \<in> {p @ rel | rel. rel \<noteq> [] \<and> exists (Dir es) rel \<and> fnmatch (last rel) pat}"
    then obtain n ns where q: "q = p @ n # ns" "exists (Dir es) (n # ns)" "fnmatch (last (n # ns)) pat"
      by (auto simp: neq_Nil_conv)
    then obtain e where e: "e \<in> set es" "fst e = n" "exists (snd e) ns"
      by (auto simp: list_ex_iff)
    show "q \<in> set (rglob p (Dir es) pat)"
    proof (cases ns)
      case Nil
      with q e show ?thesis by auto
    next
      case (Cons m ms)
      with q e have "q \<in> set (rglob (p @ [fst e]) (snd e) pat)"
        using "2.IH"[of e] by auto
      with e show ?thesis by auto
    qed
  qed
qed

lemma is_file_exists: "is_file t rel \<Longrightarrow> exists t rel"
  by (induction t rel rule: is_file.induct) (auto simp: list_ex_iff)

lemma is_file_Nil: "is_file t [] \<longleftrightarrow> t = File"
  by (cases t) auto

subsection \<open>Facts about the hook and the lazy path\<close>


lemma source_recordedD:
  "source_recorded opn paths \<Longrightarrow> p \<in> set paths \<Longrightarrow> opn p = Inr ds \<Longrightarrow>
   \<exists>s. encoding ds ''source'' = Some s \<and> name (Path s) = name p"
  by (auto simp: source_recorded_def list_all_iff split: option.splits dest!: bspec)

lemma add_date_dimension_eq:
  assumes "encoding ds ''source'' = Some s"
  shows "add_date_dimension td ds =
     (case td (first_segment (stem (Path s))) of
        None \<Rightarrow> Inl (DateParseError (first_segment (stem (Path s))))
      | Some d \<Rightarrow>
          rename (assign_coords ds ''date'' \<lparr>var_dim = ''date'', var_values = [d]\<rparr>)
            ''band_data'' ''moisture_index'')"
  using assms by (simp add: add_date_dimension_def getitem_def file_date_eq split: option.splits)

lemma rename_keeps_date:
  assumes "rename ds ''band_data'' ''moisture_index'' = Inr r"
      and "coords ds ''date'' = Some \<lparr>var_dim = ''date'', var_values = ls\<rparr>"
  shows "coords r ''date'' = Some \<lparr>var_dim = ''date'', var_values = ls\<rparr>"
  using assms by (auto simp: rename_def rename_key_def rename_dim_def split: if_splits)

lemma add_date_dimension_date:
  assumes src: "encoding ds ''source'' = Some s"
      and ok: "add_date_dimension td ds = Inr r"
  shows "\<exists>d. td (first_segment (stem (Path s))) = Some d
           \<and> coords r ''date'' = Some \<lparr>var_dim = ''date'', var_values = [d]\<rparr>"
proof (cases "td (first_segment (stem (Path s)))")
  case None
  with src ok show ?thesis by (simp add: add_date_dimension_eq)
next
  case (Some d)
  with src ok have
    "rename (assign_coords ds ''date'' \<lparr>var_dim = ''date'', var_values = [d]\<rparr>)
       ''band_data'' ''moisture_index'' = Inr r"
    by (simp add: add_date_dimension_eq)
  then have "coords r ''date'' = Some \<lparr>var_dim = ''date'', var_values = [d]\<rparr>"
    by (rule rename_keeps_date) (simp add: assign_coords_def)
  with Some show ?thesis by simp
qed

lemma add_date_dimension_succeeds:
  assumes "encoding ds ''source'' = Some s"
      and "td (first_segment (stem (Path s))) = Some d"
      and "data_vars ds ''band_data'' \<noteq> None"
      and "data_vars ds ''moisture_index'' = None" and "coords ds ''moisture_index'' = None"
  shows "\<exists>r. add_date_dimension td ds = Inr r"
  using assms by (simp add: add_date_dimension_eq rename_def assign_coords_def)

lemma open_mfdataset_Inr:
  "open_mfdataset opn combine paths hook = Inr out \<longleftrightarrow>
     (\<exists>datasets datasets'.
        map opn paths = map Inr datasets
        \<and> map hook datasets = map Inr datasets'
        \<and> combine datasets' = Inr out)"
  by (auto simp: open_mfdataset_def comprehension_Inr[symmetric] split: sum.splits)

lemma moisture_index_dates_Inr:
  "moisture_index_dates td files = Inr dates \<longleftrightarrow>
     map (\<lambda>f. td (first_segment (stem f))) files = map Some dates"
proof -
  have "map (file_date td) files = map Inr dates \<longleftrightarrow>
        map (\<lambda>f. td (first_segment (stem f))) files = map Some dates"
    by (auto simp: list_eq_iff_nth_eq file_date_Inr)
  then show ?thesis by (simp add: moisture_index_dates_def comprehension_Inr)
qed

lemma moisture_index_Inr:
  "moisture_index td opn cc files = Inr arr \<longleftrightarrow>
     (\<exists>dates arrays.
        map (\<lambda>f. td (first_segment (stem f))) files = map Some dates
        \<and> map opn files = map Inr arrays
        \<and> cc arrays (date_var dates) = Inr arr)"
  by (auto simp: moisture_index_def moisture_index_dates_Inr[symmetric] comprehension_Inr[symmetric]
      split: sum.splits)


text \<open>
  On a folder with no matching entry the enumeration is empty, no date is parsed and no
  file is opened; the notebook has no guard of its own, and the outcome is what the library
  answers on the empty list.
\<close>

lemma rglob_empty_folder: "moisture_index_files root (Dir []) = []"
  by (simp add: moisture_index_files_def sorted_paths_def)

lemma moisture_index_no_files:
  "moisture_index to_datetime open_dataarray concat_arrays [] = concat_arrays [] (date_var [])"
  by (simp add: moisture_index_def moisture_index_dates_def)

lemma open_mfdataset_no_files:
  "open_mfdataset open_dataset combine [] preprocess = combine []"
  by (simp add: open_mfdataset_def)

subsection \<open>The cells on the example folder\<close>

lemma example_files:
  "moisture_index_files example_root example_folder =
     [example_root @ [''2016-05-01, Sentinel-2A L1C, Moisture index.tiff''],
      example_root @ [''2019-02-15, Sentinel-2A L1C, Moisture index.tiff''],
      example_root @ [''2020-02-07, Sentinel-2A L1C, Moisture index.tiff'']]"
  by code_simp

lemma example_same_tree: "same_tree example_folder example_folder_relisted"
  unfolding example_folder_def example_folder_relisted_def
  by (rule same_dir[where ds = "[(''2019-02-15, Sentinel-2A L1C, Moisture index.tiff'', File),
      (''2020-02-07, Sentinel-2A L1C, Moisture index.tiff'', File),
      (''2016-05-01, Sentinel-2A L1C, Moisture index.tiff'', File)]"])
   (auto intro: same_tree.intros)






lemma example_lazy_run:
  "lazy_run iso_date example_open_dataset example_combine example_write example_root example_folder []
     = (Inr [(2016, 5, 1), (2019, 2, 15), (2020, 2, 7)], [''moisture_index_stacked.zarr''])"
  by code_simp

lemma example_concat_contract: "concat_adds_coordinate example_concat"
  by (auto simp: concat_adds_coordinate_def example_concat_def split: list.splits)

lemma example_moisture_index:
  "map_sum id (\<lambda>a. (da_dims a, map_option var_values (da_coords a ''date''), da_values a))
     (moisture_index iso_date example_open_dataarray example_concat
        (moisture_index_files example_root example_folder))
   = Inr ([''date'', ''band'', ''y'', ''x''],
          Some [(2016, 5, 1), (2019, 2, 15), (2020, 2, 7)],
          [''2016-05-01, Sentinel-2A L1C, Moisture index.tiff'',
           ''2019-02-15, Sentinel-2A L1C, Moisture index.tiff'',
           ''2020-02-07, Sentinel-2A L1C, Moisture index.tiff''])"
  by code_simp

lemma example_sources:
  "source_recorded example_open_dataset (moisture_index_files example_root example_folder)"
  by code_simp

lemma example_moisture_index_lazy:
  "moisture_index_lazy iso_date example_open_dataset example_combine example_root example_folder
     = Inr [(2016, 5, 1), (2019, 2, 15), (2020, 2, 7)]"
  by code_simp

lemma example_hook_no_comma:
  "name (Path ''/home/user/data/2016-05-01.tiff'') = name [''data'', ''2016-05-01.tiff'']
   \<and> map_sum id (\<lambda>r. (map_option var_values (coords r ''date''), data_vars r ''moisture_index''))
       (add_date_dimension iso_date
          \<lparr>data_vars = [''band_data'' \<mapsto> ''raster''], coords = Map.empty,
           encoding = [''source'' \<mapsto> ''/home/user/data/2016-05-01.tiff'']\<rparr>)
     = Inr (Some [(2016, 5, 1)], Some ''raster'')"
  by code_simp

section \<open>The claims\<close>

subsection \<open>Enumeration\<close>

text \<open>
  C9. File enumeration is recursive: a regular file at any depth below the start directory
  whose name matches \<open>*.tiff\<close> is in the enumerated list, not only the files that lie
  directly in the start directory. \<open>rel\<close> is the file's path relative to the start
  directory, of any length.
\<close>
theorem rglob_recursive:
  assumes "is_file t rel" and "fnmatch (name rel) ''*.tiff''"
  shows "root @ rel \<in> set (moisture_index_files root t)"
proof -
  from assms(2) have "rel \<noteq> []" by (auto simp: name_def)
  with assms have "exists t rel \<and> fnmatch (last rel) ''*.tiff''"
    by (auto simp: name_def is_file_exists)
  with \<open>rel \<noteq> []\<close> show ?thesis
    by (auto simp: moisture_index_files_def sorted_paths_def set_rglob)
qed

theorem rglob_recursive_witness:
  "is_file (Dir [(''top.tiff'', File), (''2019'', Dir [(''02'', Dir [(''2019-02-15, X.tiff'', File)])])])
     [''2019'', ''02'', ''2019-02-15, X.tiff'']
   \<and> fnmatch (name [''2019'', ''02'', ''2019-02-15, X.tiff'']) ''*.tiff''
   \<and> [''data'', ''2019'', ''02'', ''2019-02-15, X.tiff'']
      \<in> set (moisture_index_files [''data'']
          (Dir [(''top.tiff'', File), (''2019'', Dir [(''02'', Dir [(''2019-02-15, X.tiff'', File)])])]))"
proof -
  let ?t = "Dir [(''top.tiff'', File), (''2019'', Dir [(''02'', Dir [(''2019-02-15, X.tiff'', File)])])]"
  let ?rel = "[''2019'', ''02'', ''2019-02-15, X.tiff'']"
  have f: "is_file ?t ?rel" by simp
  have m: "fnmatch (name ?rel) ''*.tiff''" by (simp add: name_def)
  from rglob_recursive[OF f m, of "[''data'']"] f m show ?thesis by simp
qed

text \<open>
  C4, as amended. The file enumerator returns exactly the paths of the entries below the
  start directory whose name ends in \<open>.tiff\<close>: entries of any kind, so a directory with
  such a name is returned as well as a regular file. The list is sorted, paths comparing
  component by component and components by code point, and it does not depend on the
  order in which the directories happen to be listed (\<open>t'\<close> is another listing of the
  tree \<open>t\<close>).
\<close>

theorem moisture_index_files_entries:
  assumes "same_tree t t'"
  shows "set (moisture_index_files root t) =
           {root @ rel | rel. exists t rel \<and> (\<exists>x. name rel = x @ ''.tiff'')}
         \<and> sorted (moisture_index_files root t)
         \<and> moisture_index_files root t' = moisture_index_files root t"
proof -
  have "{root @ rel | rel. rel \<noteq> [] \<and> exists t rel \<and> fnmatch (last rel) ''*.tiff''}
      = {root @ rel | rel. exists t rel \<and> (\<exists>x. name rel = x @ ''.tiff'')}"
    by (auto simp: fnmatch_tiff name_def)
  then have "set (moisture_index_files root t) =
      {root @ rel | rel. exists t rel \<and> (\<exists>x. name rel = x @ ''.tiff'')}"
    by (simp add: moisture_index_files_def sorted_paths_def set_rglob)
  moreover have "sorted (moisture_index_files root t)"
    by (simp add: moisture_index_files_def sorted_paths_def)
  moreover have "moisture_index_files root t' = moisture_index_files root t"
    using same_tree_files[OF assms, of root "''*.tiff''"] by (simp add: moisture_index_files_def)
  ultimately show ?thesis by simp
qed

theorem moisture_index_files_entries_witness:
  "same_tree example_folder example_folder_relisted
   \<and> sorted (moisture_index_files example_root example_folder)
   \<and> moisture_index_files example_root example_folder_relisted =
       [example_root @ [''2016-05-01, Sentinel-2A L1C, Moisture index.tiff''],
        example_root @ [''2019-02-15, Sentinel-2A L1C, Moisture index.tiff''],
        example_root @ [''2020-02-07, Sentinel-2A L1C, Moisture index.tiff'']]"
  using moisture_index_files_entries[OF example_same_tree, of example_root]
    example_same_tree example_files
  by simp

text \<open>
  C4, as stated (exactly the file paths matching the suffix), fails where a directory
  carries the suffix: the directory \<open>old.tiff\<close> is returned, and it is not a file.
\<close>

theorem enumerate_directory_counterexample:
  "moisture_index_files [''data''] (Dir [(''a.tiff'', File), (''old.tiff'', Dir [(''b.txt'', File)])])
     = [[''data'', ''a.tiff''], [''data'', ''old.tiff'']]
   \<and> \<not> is_file (Dir [(''a.tiff'', File), (''old.tiff'', Dir [(''b.txt'', File)])]) [''old.tiff'']
   \<and> exists (Dir [(''a.tiff'', File), (''old.tiff'', Dir [(''b.txt'', File)])]) [''old.tiff'']"
  by code_simp

subsection \<open>Reproducibility\<close>

text \<open>
  C6. Re-running the pipeline on unchanged inputs gives the same result. The inputs of a
  run are the directory tree and what the library calls answer on a given argument (the
  parameters are functions: the same file opens to the same array, the same string parses
  to the same date). What may differ from run to run is the order in which a directory is
  listed: \<open>t'\<close> is the tree \<open>t\<close> as the second run lists it. Both runs end the same way,
  the eager and the lazy one, stacked values, axis labels and written store alike.
\<close>

theorem rerun_same_result:
  assumes "same_tree t t'"
  shows "eager_run to_datetime open_dataarray concat_arrays to_netcdf root t' disk
           = eager_run to_datetime open_dataarray concat_arrays to_netcdf root t disk
       \<and> lazy_run to_datetime open_dataset combine to_zarr root t' zdisk
           = lazy_run to_datetime open_dataset combine to_zarr root t zdisk"
  using same_tree_files[OF assms, of root "''*.tiff''"]
  by (simp add: eager_run_def lazy_run_def moisture_index_files_def moisture_index_lazy_def)

theorem rerun_same_result_witness:
  "same_tree example_folder example_folder_relisted
   \<and> eager_run iso_date example_open_dataarray example_concat example_write
        example_root example_folder_relisted []
      = eager_run iso_date example_open_dataarray example_concat example_write
        example_root example_folder []
   \<and> lazy_run iso_date example_open_dataset example_combine example_write
        example_root example_folder_relisted []
      = (Inr [(2016, 5, 1), (2019, 2, 15), (2020, 2, 7)], [''moisture_index_stacked.zarr''])"
  using rerun_same_result[where to_datetime = iso_date and open_dataarray = example_open_dataarray
      and concat_arrays = example_concat and to_netcdf = example_write and root = example_root
      and disk = "[]" and open_dataset = example_open_dataset and combine = example_combine
      and to_zarr = example_write and zdisk = "[]", OF example_same_tree]
    example_same_tree example_lazy_run
  by simp

subsection \<open>Date extraction\<close>

text \<open>
  C10. For a file name with no comma, splitting the stem on a comma returns the whole
  stem as the only segment, so the extraction cannot fail at the split or at \<open>[0]\<close>: it
  returns the date when the whole stem is a valid date string and raises the parse error
  otherwise. The same holds in the hook \<open>add_date_dimension\<close>, for a dataset whose recorded
  source names the file: it raises the parse error when the stem is no date, and goes on
  to attach the date otherwise.
\<close>

theorem file_date_no_comma:
  assumes "CHR '','' \<notin> set (name p)"
  shows "split (stem p) CHR '','' = [stem p]
       \<and> file_date to_datetime p =
           (case to_datetime (stem p) of
              None \<Rightarrow> Inl (DateParseError (stem p))
            | Some d \<Rightarrow> Inr d)
       \<and> (encoding ds ''source'' = Some s \<longrightarrow> name (Path s) = name p \<longrightarrow>
            add_date_dimension to_datetime ds =
              (case to_datetime (stem p) of
                 None \<Rightarrow> Inl (DateParseError (stem p))
               | Some d \<Rightarrow>
                   rename (assign_coords ds ''date'' \<lparr>var_dim = ''date'', var_values = [d]\<rparr>)
                     ''band_data'' ''moisture_index''))"
proof -
  from assms set_stem[of p] have nc: "CHR '','' \<notin> set (stem p)" by auto
  then have seg: "first_segment (stem p) = stem p" by (rule first_segment_no_comma)
  have "add_date_dimension to_datetime ds =
      (case to_datetime (stem p) of
         None \<Rightarrow> Inl (DateParseError (stem p))
       | Some d \<Rightarrow>
           rename (assign_coords ds ''date'' \<lparr>var_dim = ''date'', var_values = [d]\<rparr>)
             ''band_data'' ''moisture_index'')"
    if s: "encoding ds ''source'' = Some s" and n: "name (Path s) = name p"
  proof -
    from n have "stem (Path s) = stem p" by (rule stem_cong_name)
    with seg show ?thesis by (simp add: add_date_dimension_eq[OF s] cong: option.case_cong)
  qed
  moreover have "file_date to_datetime p =
      (case to_datetime (stem p) of None \<Rightarrow> Inl (DateParseError (stem p)) | Some d \<Rightarrow> Inr d)"
    by (simp add: file_date_eq seg cong: option.case_cong)
  moreover from nc have "split (stem p) CHR '','' = [stem p]" by (rule split_no_sep)
  ultimately show ?thesis by blast
qed

theorem file_date_no_comma_witness:
  "CHR '','' \<notin> set (name [''data'', ''2016-05-01.tiff''])
   \<and> split (stem [''data'', ''2016-05-01.tiff'']) CHR '','' = [''2016-05-01'']
   \<and> file_date iso_date [''data'', ''2016-05-01.tiff''] = Inr (2016, 5, 1)
   \<and> name (Path ''/home/user/data/2016-05-01.tiff'') = name [''data'', ''2016-05-01.tiff'']
   \<and> map_sum id (\<lambda>r. (map_option var_values (coords r ''date''), data_vars r ''moisture_index''))
       (add_date_dimension iso_date
          \<lparr>data_vars = [''band_data'' \<mapsto> ''raster''], coords = Map.empty,
           encoding = [''source'' \<mapsto> ''/home/user/data/2016-05-01.tiff'']\<rparr>)
     = Inr (Some [(2016, 5, 1)], Some ''raster'')"
proof -
  have h: "CHR '','' \<notin> set (name [''data'', ''2016-05-01.tiff''])" by (simp add: name_def)
  have s: "stem [''data'', ''2016-05-01.tiff''] = ''2016-05-01''" by code_simp
  have d: "iso_date ''2016-05-01'' = Some (2016, 5, 1)" by code_simp
  from file_date_no_comma[where to_datetime = iso_date
      and s = "''/home/user/data/2016-05-01.tiff''"
      and ds = "\<lparr>data_vars = [''band_data'' \<mapsto> ''raster''], coords = Map.empty,
           encoding = [''source'' \<mapsto> ''/home/user/data/2016-05-01.tiff'']\<rparr>", OF h]
    h s d example_hook_no_comma
  show ?thesis by simp
qed




subsection \<open>Stacking\<close>

text \<open>
  C1. The eager pipeline (enumerate, parse the dates, concatenate along \<open>date_var\<close>), with
  \<open>N\<close> the number of enumerated files. It produces a stacked array exactly when every
  name yields a date, every file opens and \<open>xr.concat\<close> accepts the opened arrays; and the
  array it produces has the new dimension \<open>date\<close>, whose axis has exactly \<open>N\<close> labels, the
  dates parsed from the file names in the order of the files. \<open>xr.concat\<close> is a parameter
  that meets its documented contract \<open>concat_adds_coordinate\<close>.
\<close>

theorem moisture_index_date_axis:
  assumes contract: "concat_adds_coordinate concat_arrays"
  shows "(moisture_index to_datetime open_dataarray concat_arrays (moisture_index_files root t) = Inr arr
          \<longleftrightarrow> (\<exists>dates arrays.
                 map (\<lambda>f. to_datetime (first_segment (stem f))) (moisture_index_files root t)
                   = map Some dates
               \<and> map open_dataarray (moisture_index_files root t) = map Inr arrays
               \<and> concat_arrays arrays (date_var dates) = Inr arr))
       \<and> (moisture_index to_datetime open_dataarray concat_arrays (moisture_index_files root t) = Inr arr
          \<longrightarrow> ''date'' \<in> set (da_dims arr)
            \<and> (\<exists>labels.
                  da_coords arr ''date'' = Some \<lparr>var_dim = ''date'', var_values = labels\<rparr>
                \<and> length labels = length (moisture_index_files root t)
                \<and> map (\<lambda>f. to_datetime (first_segment (stem f))) (moisture_index_files root t)
                    = map Some labels))"
proof (intro conjI impI)
  show "moisture_index to_datetime open_dataarray concat_arrays (moisture_index_files root t) = Inr arr
      \<longleftrightarrow> (\<exists>dates arrays.
             map (\<lambda>f. to_datetime (first_segment (stem f))) (moisture_index_files root t)
               = map Some dates
           \<and> map open_dataarray (moisture_index_files root t) = map Inr arrays
           \<and> concat_arrays arrays (date_var dates) = Inr arr)"
    by (rule moisture_index_Inr)
next
  assume run: "moisture_index to_datetime open_dataarray concat_arrays (moisture_index_files root t) = Inr arr"
  then obtain dates arrays where
    dates: "map (\<lambda>f. to_datetime (first_segment (stem f))) (moisture_index_files root t) = map Some dates"
    and cc: "concat_arrays arrays (date_var dates) = Inr arr"
    unfolding moisture_index_Inr by blast
  from contract cc have ax: "var_dim (date_var dates) \<in> set (da_dims arr)"
      "da_coords arr (var_dim (date_var dates)) = Some (date_var dates)"
    unfolding concat_adds_coordinate_def by blast+
  from dates have len: "length dates = length (moisture_index_files root t)"
    by (metis length_map)
  from ax show "''date'' \<in> set (da_dims arr)" by (simp add: date_var_def)
  from ax dates len show "\<exists>labels.
      da_coords arr ''date'' = Some \<lparr>var_dim = ''date'', var_values = labels\<rparr>
      \<and> length labels = length (moisture_index_files root t)
      \<and> map (\<lambda>f. to_datetime (first_segment (stem f))) (moisture_index_files root t) = map Some labels"
    by (auto simp: date_var_def)
qed

theorem moisture_index_date_axis_witness:
  "concat_adds_coordinate
     (example_concat :: (nat \<times> nat \<times> nat, string list) data_array list \<Rightarrow> _)
   \<and> length (moisture_index_files example_root example_folder) = 3
   \<and> map_sum id (\<lambda>a. (da_dims a, map_option var_values (da_coords a ''date''), da_values a))
       (moisture_index iso_date example_open_dataarray example_concat
          (moisture_index_files example_root example_folder))
     = Inr ([''date'', ''band'', ''y'', ''x''],
            Some [(2016, 5, 1), (2019, 2, 15), (2020, 2, 7)],
            [''2016-05-01, Sentinel-2A L1C, Moisture index.tiff'',
             ''2019-02-15, Sentinel-2A L1C, Moisture index.tiff'',
             ''2020-02-07, Sentinel-2A L1C, Moisture index.tiff''])"
  using moisture_index_date_axis[where concat_arrays = example_concat and to_datetime = iso_date
      and open_dataarray = example_open_dataarray and root = example_root and t = example_folder,
      OF example_concat_contract]
    example_concat_contract example_moisture_index example_files
  by simp

text \<open>
  C8. The lazy path, for datasets that record their source. \<open>open_mfdataset\<close> returns
  exactly when every file opens, the hook \<open>add_date_dimension\<close> returns on every opened
  dataset, and the combine step accepts the list of the hook's results: what enters the
  concatenation is, position by position, the hook's result on the dataset of that file,
  one call per file. The hook reads the file's identity from \<open>encoding["source"]\<close>, and the
  dataset it returns for a file carries the coordinate \<open>date\<close> with one label, the date
  parsed from that file's name.
\<close>

theorem add_date_dimension_each_file:
  assumes src: "source_recorded open_dataset (moisture_index_files root t)"
  shows "(moisture_index_lazy to_datetime open_dataset combine root t = Inr out
          \<longleftrightarrow> (\<exists>datasets datasets'.
                 map open_dataset (moisture_index_files root t) = map Inr datasets
               \<and> map (add_date_dimension to_datetime) datasets = map Inr datasets'
               \<and> combine datasets' = Inr out))
       \<and> (map open_dataset (moisture_index_files root t) = map Inr datasets
          \<longrightarrow> map (add_date_dimension to_datetime) datasets = map Inr datasets'
          \<longrightarrow> list_all2
                (\<lambda>f r. \<exists>d. to_datetime (first_segment (stem f)) = Some d
                          \<and> coords r ''date'' = Some \<lparr>var_dim = ''date'', var_values = [d]\<rparr>)
                (moisture_index_files root t) datasets')"
proof (intro conjI impI)
  show "moisture_index_lazy to_datetime open_dataset combine root t = Inr out
      \<longleftrightarrow> (\<exists>datasets datasets'.
             map open_dataset (moisture_index_files root t) = map Inr datasets
           \<and> map (add_date_dimension to_datetime) datasets = map Inr datasets'
           \<and> combine datasets' = Inr out)"
    by (simp add: moisture_index_lazy_def moisture_index_files_def open_mfdataset_Inr)
next
  let ?files = "moisture_index_files root t"
  assume opened: "map open_dataset ?files = map Inr datasets"
     and hooked: "map (add_date_dimension to_datetime) datasets = map Inr datasets'"
  from opened have l1: "length datasets = length ?files" by (metis length_map)
  from hooked have l2: "length datasets' = length datasets" by (metis length_map)
  show "list_all2
      (\<lambda>f r. \<exists>d. to_datetime (first_segment (stem f)) = Some d
                \<and> coords r ''date'' = Some \<lparr>var_dim = ''date'', var_values = [d]\<rparr>)
      ?files datasets'"
  proof (rule list_all2_all_nthI)
    show "length ?files = length datasets'" using l1 l2 by simp
  next
    fix i assume i: "i < length ?files"
    from opened i l1 have o: "open_dataset (?files ! i) = Inr (datasets ! i)"
      by (metis nth_map)
    from hooked i l1 l2 have h: "add_date_dimension to_datetime (datasets ! i) = Inr (datasets' ! i)"
      by (metis nth_map)
    from i have "?files ! i \<in> set ?files" by simp
    with src o obtain s where s: "encoding (datasets ! i) ''source'' = Some s"
        "name (Path s) = name (?files ! i)"
      using source_recordedD[of open_dataset ?files "?files ! i" "datasets ! i"] by auto
    from s(2) have st: "stem (Path s) = stem (?files ! i)" by (rule stem_cong_name)
    from add_date_dimension_date[OF s(1) h] st
    show "\<exists>d. to_datetime (first_segment (stem (?files ! i))) = Some d
            \<and> coords (datasets' ! i) ''date'' = Some \<lparr>var_dim = ''date'', var_values = [d]\<rparr>"
      by simp
  qed
qed

theorem add_date_dimension_each_file_witness:
  "source_recorded example_open_dataset (moisture_index_files example_root example_folder)
   \<and> moisture_index_lazy iso_date example_open_dataset example_combine example_root example_folder
       = Inr [(2016, 5, 1), (2019, 2, 15), (2020, 2, 7)]
   \<and> (\<exists>datasets datasets'.
         map example_open_dataset (moisture_index_files example_root example_folder) = map Inr datasets
       \<and> map (add_date_dimension iso_date) datasets = map Inr datasets'
       \<and> length datasets' = 3
       \<and> example_combine datasets' = Inr [(2016, 5, 1), (2019, 2, 15), (2020, 2, 7)])"
proof -
  from add_date_dimension_each_file[where to_datetime = iso_date and combine = example_combine
      and out = "[(2016, 5, 1), (2019, 2, 15), (2020, 2, 7)]", OF example_sources]
    example_moisture_index_lazy
  obtain datasets datasets' where d:
    "map example_open_dataset (moisture_index_files example_root example_folder) = map Inr datasets"
    "map (add_date_dimension iso_date) datasets = map Inr datasets'"
    "example_combine datasets' = Inr [(2016, 5, 1), (2019, 2, 15), (2020, 2, 7)]"
    by blast
  from d(1) have "length datasets = 3" using example_files by (metis length_map length_Cons list.size(3) numeral_3_eq_3)
  with d(2) have "length datasets' = 3" by (metis length_map)
  with d example_sources example_moisture_index_lazy show ?thesis by blast
qed

end
